theory Spec2Isabelle
  imports Complex_Main "HOL-Library.Sublist" "HOL-Library.AList" "HOL-Library.Log_Nat"
begin

section \<open>Python values and exceptions\<close>

text \<open>
  The notebooks are Python. An exception raised by an expression is the left
  injection of a sum; integers are Python's unbounded integers.  A dictionary
  is kept as an association list in insertion order, its values being
  integers, strings, lists or nested dictionaries.
\<close>

datatype exn =
  ZeroDivisionError | ValueError | KeyError | TypeError | AttributeError | RuntimeError

datatype pyval = PInt int | PStr string | PList "pyval list" | PDict "(string \<times> pyval) list"

text \<open>\<^verbatim>\<open>a // b\<close> on integers: floor division, raising on a zero divisor.\<close>

definition floordiv :: "int \<Rightarrow> int \<Rightarrow> exn + int" where
  "floordiv a b = (if b = 0 then Inl ZeroDivisionError else Inr (a div b))"

text \<open>\<^verbatim>\<open>d[k]\<close> and \<^verbatim>\<open>d[k] = v\<close> with a string key.\<close>

fun getitem :: "pyval \<Rightarrow> string \<Rightarrow> exn + pyval" where
  "getitem (PDict kvs) k = (case map_of kvs k of None \<Rightarrow> Inl KeyError | Some v \<Rightarrow> Inr v)"
| "getitem _ k = Inl TypeError"

fun setitem :: "pyval \<Rightarrow> string \<Rightarrow> pyval \<Rightarrow> exn + pyval" where
  "setitem (PDict kvs) k v = Inr (PDict (AList.update k v kvs))"
| "setitem _ k v = Inl TypeError"

text \<open>Sequencing of expressions that may raise.\<close>

definition bind_e :: "exn + 'r \<Rightarrow> ('r \<Rightarrow> exn + 'q) \<Rightarrow> exn + 'q" where
  "bind_e x f = (case x of Inl e \<Rightarrow> Inl e | Inr r \<Rightarrow> f r)"

section \<open>Trainer configurations\<close>

definition NUM_TRAIN_SAMPLES :: int where
  "NUM_TRAIN_SAMPLES = 1000"

definition NUM_TEST_SAMPLES :: int where
  "NUM_TEST_SAMPLES = 400"

text \<open>
  \<^verbatim>\<open>create_config(batch_size)\<close>: the dictionary literal evaluates its entries in
  order, so the first floor division that raises ends the call.
\<close>

definition create_config :: "int \<Rightarrow> exn + pyval" where
  "create_config batch_size =
     (case floordiv NUM_TRAIN_SAMPLES batch_size of
        Inl e \<Rightarrow> Inl e
      | Inr steps_per_epoch \<Rightarrow>
          (case floordiv NUM_TEST_SAMPLES batch_size of
             Inl e \<Rightarrow> Inl e
           | Inr steps \<Rightarrow>
               Inr (PDict
                 [(''batch_size'', PInt batch_size),
                  (''fit_config'', PDict [(''steps_per_epoch'', PInt steps_per_epoch)]),
                  (''evaluate_config'', PDict [(''steps'', PInt steps)])])))"

definition create_diamonds_config :: "int \<Rightarrow> exn + pyval" where
  "create_diamonds_config batch_size =
     (case floordiv 40000 batch_size of
        Inl e \<Rightarrow> Inl e
      | Inr steps_per_epoch \<Rightarrow>
          (case floordiv 13940 batch_size of
             Inl e \<Rightarrow> Inl e
           | Inr steps \<Rightarrow>
               Inr (PDict
                 [(''batch_size'', PInt batch_size),
                  (''fit_config'', PDict [(''steps_per_epoch'', PInt steps_per_epoch)]),
                  (''evaluate_config'', PDict [(''steps'', PInt steps)])])))"

text \<open>\<^verbatim>\<open>cfg[k1][k2]\<close>, the nested read the trainer performs on a configuration.\<close>

definition getitem2 :: "exn + pyval \<Rightarrow> string \<Rightarrow> string \<Rightarrow> exn + pyval" where
  "getitem2 r k1 k2 =
     (case r of
        Inl e \<Rightarrow> Inl e
      | Inr cfg \<Rightarrow> (case getitem cfg k1 of Inl e \<Rightarrow> Inl e | Inr inner \<Rightarrow> getitem inner k2))"

section \<open>The synthetic data set\<close>

text \<open>
  A NumPy array is its shape together with its elements in row-major order.
  The element type is left open: it only needs the multiplication and the
  numeral that \<^verbatim>\<open>2 * x\<close> uses.
\<close>

record 'a ndarray =
  shape :: "nat list"
  data :: "'a list"

text \<open>\<^verbatim>\<open>c * a\<close> for a scalar \<open>c\<close>: the elements are scaled, the shape is kept.\<close>

definition scalar_mul :: "'a::times \<Rightarrow> 'a ndarray \<Rightarrow> 'a ndarray" where
  "scalar_mul c a = a\<lparr>data := map (\<lambda>v. c * v) (data a)\<rparr>"

text \<open>
  \<^verbatim>\<open>a.reshape(newshape)\<close>: at most one dimension may be \<open>-1\<close>; it is inferred from
  the number of elements and the other dimensions, and the call raises when
  the element count does not fit.
\<close>

definition reshape :: "'a ndarray \<Rightarrow> int list \<Rightarrow> exn + 'a ndarray" where
  "reshape a newshape =
     (let n = int (length (data a));
          known = prod_list (filter (\<lambda>d. d \<noteq> -1) newshape)
      in if (\<exists>d \<in> set newshape. d < -1) \<or> 1 < length (filter (\<lambda>d. d = -1) newshape)
         then Inl ValueError
         else if -1 \<in> set newshape
         then (if known = 0 \<or> n mod known \<noteq> 0 then Inl ValueError
               else Inr (a\<lparr>shape := map (\<lambda>d. nat (if d = -1 then n div known else d)) newshape\<rparr>))
         else (if known \<noteq> n then Inl ValueError
               else Inr (a\<lparr>shape := map nat newshape\<rparr>)))"

text \<open>
  \<^verbatim>\<open>linear_dataset(size)\<close>.  The random draw \<^verbatim>\<open>np.random.rand(size)\<close> belongs to
  NumPy and is a parameter \<open>rand\<close> of the model.
\<close>

definition linear_dataset ::
  "(int \<Rightarrow> exn + ('a::{times,numeral}) ndarray) \<Rightarrow> int \<Rightarrow> exn + ('a ndarray \<times> 'a ndarray)" where
  "linear_dataset rand sz =
     (case rand sz of
        Inl e \<Rightarrow> Inl e
      | Inr x \<Rightarrow>
          (let y = scalar_mul 2 x in
           case reshape x [-1, 1] of
             Inl e \<Rightarrow> Inl e
           | Inr x' \<Rightarrow>
               (case reshape y [-1, 1] of
                  Inl e \<Rightarrow> Inl e
                | Inr y' \<Rightarrow> Inr (x', y'))))"

text \<open>\<^verbatim>\<open>a[i]\<close> on an array of two or more dimensions: the \<open>i\<close>-th slice along the first axis.\<close>

definition row :: "'a ndarray \<Rightarrow> nat \<Rightarrow> 'a list" where
  "row a i = (let c = prod_list (tl (shape a)) in take c (drop (i * c) (data a)))"

section \<open>Library calls and what a run prints\<close>

text \<open>
  Everything below the notebooks' own statements belongs to Ray, RaySGD and
  MLflow.  The libraries are a parameter of the model: a function from the
  call made and the state of the outside world to either an exception or a
  reply and a new world.  The model of a run records, in order, every library
  call together with the exception it raised, if any, and every line printed.
\<close>

datatype 'a reply = R_none | R_stats "(string \<times> 'a) list" | R_str string | R_run string

datatype 'a lib_op =
    TFTrainer_init string string int bool bool pyval
  | RLTrainer_init string pyval string
  | Trainer_validate
  | Trainer_train
  | Trainer_save string
  | Client_create_run string
  | Client_log_metric string string 'a nat
  | Client_set_terminated string

datatype 'a printed =
    P_value "'a reply"
  | P_text string
  | P_deltas 'a 'a
  | P_row nat 'a 'a 'a
  | P_last_checkpoint "'a reply"

datatype 'a event = Lib "'a lib_op" "exn option" | Print "'a printed"

type_synonym ('w, 'a) library = "'a lib_op \<Rightarrow> 'w \<Rightarrow> exn + ('a reply \<times> 'w)"

type_synonym ('w, 'a, 'r) prog = "'w \<times> 'a event list \<Rightarrow> (exn + 'r) \<times> 'w \<times> 'a event list"

definition unit_p :: "'r \<Rightarrow> ('w, 'a, 'r) prog" where
  "unit_p r = (\<lambda>s. (Inr r, s))"

definition lift_p :: "exn + 'r \<Rightarrow> ('w, 'a, 'r) prog" where
  "lift_p x = (\<lambda>s. (x, s))"

text \<open>Statement sequencing: an exception skips everything that follows.\<close>

definition bind_p :: "('w, 'a, 'r) prog \<Rightarrow> ('r \<Rightarrow> ('w, 'a, 'q) prog) \<Rightarrow> ('w, 'a, 'q) prog" where
  "bind_p m f = (\<lambda>s. case m s of (Inl e, s') \<Rightarrow> (Inl e, s') | (Inr r, s') \<Rightarrow> f r s')"

definition call :: "('w, 'a) library \<Rightarrow> 'a lib_op \<Rightarrow> ('w, 'a, 'a reply) prog" where
  "call lib op = (\<lambda>(w, tr).
     case lib op w of
       Inl e \<Rightarrow> (Inl e, (w, tr @ [Lib op (Some e)]))
     | Inr (r, w') \<Rightarrow> (Inr r, (w', tr @ [Lib op None])))"

definition emit :: "'a printed \<Rightarrow> ('w, 'a, unit) prog" where
  "emit p = (\<lambda>(w, tr). (Inr (), (w, tr @ [Print p])))"

text \<open>\<^verbatim>\<open>for i in xs: body\<close>, the variables assigned in the body threaded through.\<close>

fun for_each :: "'i list \<Rightarrow> ('i \<Rightarrow> 'v \<Rightarrow> ('w, 'a, 'v) prog) \<Rightarrow> 'v \<Rightarrow> ('w, 'a, 'v) prog" where
  "for_each [] body v = unit_p v"
| "for_each (i # is) body v = bind_p (body i v) (for_each is body)"

text \<open>\<^verbatim>\<open>stats[k]\<close> on a reply, and \<^verbatim>\<open>run.info.run_id\<close>.\<close>

fun subscript :: "'a reply \<Rightarrow> string \<Rightarrow> exn + 'a" where
  "subscript (R_stats kvs) k = (case map_of kvs k of None \<Rightarrow> Inl KeyError | Some v \<Rightarrow> Inr v)"
| "subscript _ k = Inl TypeError"

fun run_id :: "'a reply \<Rightarrow> exn + string" where
  "run_id (R_run i) = Inr i"
| "run_id _ = Inl AttributeError"

subsection \<open>RaySGD training runs\<close>


definition train_diamonds ::
  "('w, 'a) library \<Rightarrow> int \<Rightarrow> int \<Rightarrow> bool \<Rightarrow> ('w, 'a, unit) prog" where
  "train_diamonds lib num_replicas batch_size use_gpu =
     bind_p (lift_p (create_diamonds_config batch_size)) (\<lambda>config.
     bind_p (call lib (TFTrainer_init ''diamonds_simple_model'' ''diamonds_dataset''
                         num_replicas use_gpu False config)) (\<lambda>_.
     bind_p (call lib Trainer_validate) (\<lambda>start_stats.
     bind_p (emit (P_value start_stats)) (\<lambda>_.
     bind_p (for_each [0..<32] (\<lambda>i _. bind_p (call lib Trainer_train) (\<lambda>_. unit_p ())) ()) (\<lambda>_.
     bind_p (call lib Trainer_validate) (\<lambda>end_stats.
     emit (P_value end_stats)))))))"

text \<open>The body of the loop of \<^verbatim>\<open>train_diamonds_mlflow\<close>, for iteration \<open>i\<close>.\<close>

definition mlflow_iteration ::
  "('w, 'a) library \<Rightarrow> 'a reply \<Rightarrow> nat \<Rightarrow> unit \<Rightarrow> ('w, 'a, unit) prog" where
  "mlflow_iteration lib ml_run i _ =
     bind_p (call lib Trainer_train) (\<lambda>train_stats.
     if i mod 2 = 0
     then
       bind_p (call lib Trainer_validate) (\<lambda>val_stats.
       bind_p (lift_p (run_id ml_run)) (\<lambda>rid.
       bind_p (lift_p (subscript val_stats ''validation_loss'')) (\<lambda>validation_loss.
       bind_p (call lib (Client_log_metric rid ''validation_loss'' validation_loss i)) (\<lambda>_.
       bind_p (lift_p (run_id ml_run)) (\<lambda>rid'.
       bind_p (lift_p (subscript train_stats ''train_loss'')) (\<lambda>train_loss.
       bind_p (call lib (Client_log_metric rid' ''training_loss'' train_loss i)) (\<lambda>_.
       unit_p ())))))))
     else unit_p ())"

text \<open>
  \<^verbatim>\<open>train_diamonds_mlflow\<close>; \<open>experiment_id\<close> is the notebook's global of that
  name, returned earlier by \<^verbatim>\<open>mlflow.create_experiment\<close>.
\<close>

definition train_diamonds_mlflow ::
  "('w, 'a) library \<Rightarrow> string \<Rightarrow> int \<Rightarrow> int \<Rightarrow> bool \<Rightarrow> ('w, 'a, unit) prog" where
  "train_diamonds_mlflow lib experiment_id num_replicas batch_size use_gpu =
     bind_p (lift_p (create_diamonds_config batch_size)) (\<lambda>config.
     bind_p (call lib (TFTrainer_init ''diamonds_simple_model'' ''diamonds_dataset''
                         num_replicas use_gpu False config)) (\<lambda>_.
     bind_p (call lib Trainer_validate) (\<lambda>start_stats.
     bind_p (emit (P_value start_stats)) (\<lambda>_.
     bind_p (call lib (Client_create_run experiment_id)) (\<lambda>ml_run.
     bind_p (for_each [0..<32] (mlflow_iteration lib ml_run) ()) (\<lambda>_.
     bind_p (lift_p (run_id ml_run)) (\<lambda>rid.
     bind_p (call lib (Client_set_terminated rid)) (\<lambda>_.
     bind_p (call lib Trainer_validate) (\<lambda>end_stats.
     emit (P_value end_stats))))))))))"

subsection \<open>RLlib training runs\<close>

definition checkpoint_dir :: string where
  "checkpoint_dir = ''checkpoints''"

definition SELECT_ENV :: string where
  "SELECT_ENV = ''CartPole-v1''"

text \<open>\<^verbatim>\<open>N_ITER\<close> in the DQN cells and in the PPO cells of the modelling notebook.\<close>

definition N_ITER_DQN :: nat where
  "N_ITER_DQN = 50"


text \<open>
  The configuration cell: the library's default configuration, then four
  assignments, one of them into the nested \<^verbatim>\<open>model\<close> dictionary.
\<close>

definition rl_config :: "pyval \<Rightarrow> exn + pyval" where
  "rl_config default_config =
     bind_e (setitem default_config ''log_level'' (PStr ''WARN'')) (\<lambda>c1.
     bind_e (setitem c1 ''num_workers'' (PInt 2)) (\<lambda>c2.
     bind_e (getitem c2 ''model'') (\<lambda>model.
     bind_e (setitem model ''fcnet_hiddens'' (PList [PInt 40, PInt 20])) (\<lambda>model'.
     bind_e (setitem c2 ''model'' model') (\<lambda>c3.
     setitem c3 ''num_cpus_per_worker'' (PInt 0))))))"

text \<open>The body of the training cell's loop; \<open>last_checkpoint\<close> is reassigned in it.\<close>

definition training_iteration ::
  "('w, 'a) library \<Rightarrow> nat \<Rightarrow> 'a reply \<Rightarrow> ('w, 'a, 'a reply) prog" where
  "training_iteration lib n last_checkpoint =
     bind_p (call lib Trainer_train) (\<lambda>result.
     bind_p (lift_p (subscript result ''episode_reward_min'')) (\<lambda>min_r.
     bind_p (lift_p (subscript result ''episode_reward_mean'')) (\<lambda>mean_r.
     bind_p (lift_p (subscript result ''episode_reward_max'')) (\<lambda>max_r.
     bind_p (call lib (Trainer_save checkpoint_dir)) (\<lambda>saved.
     bind_p (emit (P_row n min_r mean_r max_r)) (\<lambda>_.
     unit_p saved))))))"

definition training_loop :: "('w, 'a) library \<Rightarrow> nat \<Rightarrow> ('w, 'a, unit) prog" where
  "training_loop lib n_iter =
     bind_p (for_each [0..<n_iter] (training_iteration lib) (R_str [])) (\<lambda>last_checkpoint.
     emit (P_last_checkpoint last_checkpoint))"

text \<open>The three cells of one training run: configuration, trainer, loop.\<close>

definition rl_training_run ::
  "('w, 'a) library \<Rightarrow> string \<Rightarrow> nat \<Rightarrow> pyval \<Rightarrow> ('w, 'a, unit) prog" where
  "rl_training_run lib algo n_iter default_config =
     bind_p (lift_p (rl_config default_config)) (\<lambda>config.
     bind_p (call lib (RLTrainer_init algo config SELECT_ENV)) (\<lambda>_.
     training_loop lib n_iter))"

subsection \<open>Reading a trace\<close>

fun lib_calls :: "'a event list \<Rightarrow> 'a lib_op list" where
  "lib_calls [] = []"
| "lib_calls (Lib op _ # evs) = op # lib_calls evs"
| "lib_calls (Print _ # evs) = lib_calls evs"

fun raised :: "'a event \<Rightarrow> bool" where
  "raised (Lib _ (Some _)) = True"
| "raised _ = False"




text \<open>
  A library in which every call succeeds: the world counts the training
  steps made so far and the losses fall by one with each of them.
\<close>

definition steady :: "(nat, int) library" where
  "steady op w =
     Inr (case op of
            Trainer_validate \<Rightarrow>
              R_stats [(''validation_loss'', 100 - int w),
                       (''validation_mean_squared_error'', 100 - int w)]
          | Trainer_train \<Rightarrow>
              R_stats [(''train_loss'', 100 - int w), (''episode_reward_min'', int w),
                       (''episode_reward_mean'', int w + 1), (''episode_reward_max'', int w + 2)]
          | Trainer_save d \<Rightarrow> R_str (d @ ''/checkpoint'')
          | Client_create_run e \<Rightarrow> R_run ''run-1''
          | _ \<Rightarrow> R_none,
          case op of Trainer_train \<Rightarrow> Suc w | _ \<Rightarrow> w)"

section \<open>Properties of runs\<close>

text \<open>
  \<open>yields m Q\<close>: whatever the world and the trace so far, running \<open>m\<close> only
  appends events to the trace, and \<open>Q\<close> holds of the outcome and of the
  events appended.
\<close>

definition yields :: "('w, 'a, 'r) prog \<Rightarrow> ((exn + 'r) \<Rightarrow> 'a event list \<Rightarrow> bool) \<Rightarrow> bool" where
  "yields m Q =
     (\<forall>w t0 r w' t'. m (w, t0) = (r, w', t') \<longrightarrow> (\<exists>new. t' = t0 @ new \<and> Q r new))"

text \<open>No event is a library call that raised.\<close>

definition quiet :: "'a event list \<Rightarrow> bool" where
  "quiet evs = list_all (\<lambda>ev. \<not> raised ev) evs"

text \<open>
  A library call that raised is the last event of the run, and the run ends
  with the exception it raised.
\<close>

definition clean :: "(exn + 'r) \<Rightarrow> 'a event list \<Rightarrow> bool" where
  "clean x new =
     (quiet new \<or> (\<exists>pre op e. new = pre @ [Lib op (Some e)] \<and> quiet pre \<and> x = Inl e))"

definition safe :: "('w, 'a, 'r) prog \<Rightarrow> bool" where
  "safe m = yields m clean"

text \<open>
  The library calls of a run, seen through \<open>\<mu>\<close>, are the list \<open>ks\<close> when
  the run completes and an initial segment of it when the run raises.
\<close>

definition follows :: "('a lib_op \<Rightarrow> 'k) \<Rightarrow> 'k list \<Rightarrow> (exn + 'r) \<Rightarrow> 'a event list \<Rightarrow> bool" where
  "follows \<mu> ks x new =
     (case x of Inr _ \<Rightarrow> map \<mu> (lib_calls new) = ks
              | Inl _ \<Rightarrow> prefix (map \<mu> (lib_calls new)) ks)"




section \<open>The start script\<close>













fun join :: "string \<Rightarrow> string list \<Rightarrow> string" where
  "join sep [] = []"
| "join sep [s] = s"
| "join sep (s # ss) = s @ sep @ join sep ss"



subsection \<open>What the claim about the script says\<close>





section \<open>The tuning objective\<close>



subsection \<open>Two arithmetics\<close>







subsection \<open>What is asked of an arithmetic\<close>


section \<open>Properties of the configurations\<close>

text \<open>
  C8. For every non-zero batch size, \<^verbatim>\<open>create_config\<close> returns a dictionary
  whose \<^verbatim>\<open>fit_config.steps_per_epoch\<close> is \<^verbatim>\<open>1000 // batch_size\<close> and whose
  \<^verbatim>\<open>evaluate_config.steps\<close> is \<^verbatim>\<open>400 // batch_size\<close>, and
  \<^verbatim>\<open>create_diamonds_config\<close> returns \<^verbatim>\<open>40000 // batch_size\<close> and
  \<^verbatim>\<open>13940 // batch_size\<close> in the same places; neither call raises
  ZeroDivisionError then.  For batch size zero both calls raise it.
\<close>

theorem create_config_floor_divisions:
  "(batch_size \<noteq> 0 \<longrightarrow>
      getitem2 (create_config batch_size) ''fit_config'' ''steps_per_epoch''
        = Inr (PInt (1000 div batch_size)) \<and>
      getitem2 (create_config batch_size) ''evaluate_config'' ''steps''
        = Inr (PInt (400 div batch_size)) \<and>
      getitem2 (create_diamonds_config batch_size) ''fit_config'' ''steps_per_epoch''
        = Inr (PInt (40000 div batch_size)) \<and>
      getitem2 (create_diamonds_config batch_size) ''evaluate_config'' ''steps''
        = Inr (PInt (13940 div batch_size)) \<and>
      create_config batch_size \<noteq> Inl ZeroDivisionError \<and>
      create_diamonds_config batch_size \<noteq> Inl ZeroDivisionError) \<and>
   create_config 0 = Inl ZeroDivisionError \<and>
   create_diamonds_config 0 = Inl ZeroDivisionError"
  by (simp add: create_config_def create_diamonds_config_def getitem2_def floordiv_def
      NUM_TRAIN_SAMPLES_def NUM_TEST_SAMPLES_def)

theorem create_config_floor_divisions_witness:
  "(128::int) \<noteq> 0 \<and>
   getitem2 (create_config 128) ''fit_config'' ''steps_per_epoch'' = Inr (PInt 7) \<and>
   getitem2 (create_config 128) ''evaluate_config'' ''steps'' = Inr (PInt 3) \<and>
   getitem2 (create_diamonds_config 128) ''fit_config'' ''steps_per_epoch'' = Inr (PInt 312) \<and>
   getitem2 (create_diamonds_config 128) ''evaluate_config'' ''steps'' = Inr (PInt 108)"
  using create_config_floor_divisions [of 128] by simp

section \<open>Properties of the synthetic data set\<close>

lemma reshape_col: "reshape a [-1, 1] = Inr (a\<lparr>shape := [length (data a), 1]\<rparr>)"
  by (simp add: reshape_def Let_def)

lemma row_single: "i < length xs \<Longrightarrow> take (Suc 0) (drop i xs) = [xs ! i]"
  by (metis Cons_nth_drop_Suc take0 take_Suc_Cons)

text \<open>
  C3. For every size \<open>\<ge> 0\<close>, given that NumPy's \<^verbatim>\<open>rand\<close> returns a
  one-dimensional array of that many samples, \<^verbatim>\<open>linear_dataset(size)\<close> returns
  a pair \<open>(x, y)\<close> of arrays of shape \<open>(size, 1)\<close>, \<open>x\<close> holding the samples, with
  \<open>y[i] = 2 * x[i]\<close> at every index \<open>i < size\<close>.
\<close>

theorem linear_dataset_law:
  fixes rand :: "int \<Rightarrow> exn + ('a::{times,numeral}) ndarray"
  assumes "0 \<le> sz" and "rand sz = Inr r" and "shape r = [nat sz]"
    and "length (data r) = nat sz"
  shows "\<exists>x y. linear_dataset rand sz = Inr (x, y) \<and>
           shape x = [nat sz, 1] \<and> shape y = [nat sz, 1] \<and>
           data x = data r \<and> length (data y) = nat sz \<and>
           (\<forall>i < nat sz. row y i = map (\<lambda>v. 2 * v) (row x i))"
  using assms
  by (simp add: linear_dataset_def reshape_col scalar_mul_def Let_def row_def row_single)

theorem linear_dataset_law_witness:
  "(0::int) \<le> 2 \<and>
   linear_dataset (\<lambda>n. Inr \<lparr>shape = [nat n], data = [1/4, 3/4::rat]\<rparr>) 2 =
     Inr (\<lparr>shape = [2, 1], data = [1/4, 3/4]\<rparr>, \<lparr>shape = [2, 1], data = [1/2, 3/2]\<rparr>)"
  using linear_dataset_law [of 2 "\<lambda>n. Inr \<lparr>shape = [nat n], data = [1/4, 3/4::rat]\<rparr>"
      "\<lparr>shape = [2], data = [1/4, 3/4::rat]\<rparr>"]
  by (simp add: linear_dataset_def reshape_col scalar_mul_def)

section \<open>Reasoning about runs\<close>

lemma lib_calls_append: "lib_calls (a @ b) = lib_calls a @ lib_calls b"
  by (induction a rule: lib_calls.induct) simp_all

lemma yieldsD:
  "yields m Q \<Longrightarrow> m (w, t0) = (r, w', t') \<Longrightarrow> \<exists>new. t' = t0 @ new \<and> Q r new"
  unfolding yields_def by blast

lemma yields_unit: "Q (Inr r) [] \<Longrightarrow> yields (unit_p r) Q"
  by (simp add: yields_def unit_p_def)

lemma yields_lift: "Q x [] \<Longrightarrow> yields (lift_p x) Q"
  by (simp add: yields_def lift_p_def)

lemma yields_emit: "Q (Inr ()) [Print p] \<Longrightarrow> yields (emit p) Q"
  by (simp add: yields_def emit_def)

lemma yields_call:
  assumes "\<And>e. Q (Inl e) [Lib op (Some e)]" and "\<And>r. Q (Inr r) [Lib op None]"
  shows "yields (call lib op) Q"
  unfolding yields_def
proof (intro allI impI)
  fix w t0 r w' t'
  assume run: "call lib op (w, t0) = (r, w', t')"
  show "\<exists>new. t' = t0 @ new \<and> Q r new"
  proof (cases "lib op w")
    case (Inl e)
    with run have "r = Inl e" "t' = t0 @ [Lib op (Some e)]" by (simp_all add: call_def)
    with assms(1) show ?thesis by simp
  next
    case (Inr p)
    with run have "r = Inr (fst p)" "t' = t0 @ [Lib op None]"
      by (simp_all add: call_def split_beta)
    with assms(2) show ?thesis by simp
  qed
qed

lemma yields_bind:
  assumes m: "yields m P" and f: "\<And>r. yields (f r) (R r)"
    and stop: "\<And>e n. P (Inl e) n \<Longrightarrow> Q (Inl e) n"
    and go: "\<And>r n1 x n2. P (Inr r) n1 \<Longrightarrow> R r x n2 \<Longrightarrow> Q x (n1 @ n2)"
  shows "yields (bind_p m f) Q"
  unfolding yields_def
proof (intro allI impI)
  fix w t0 x w2 t2
  assume run: "bind_p m f (w, t0) = (x, w2, t2)"
  obtain r w1 t1 where ms: "m (w, t0) = (r, w1, t1)"
    by (cases "m (w, t0)") auto
  from yieldsD [OF m ms] obtain n1 where n1: "t1 = t0 @ n1" "P r n1" by blast
  show "\<exists>new. t2 = t0 @ new \<and> Q x new"
  proof (cases r)
    case (Inl e)
    with run ms have "x = Inl e" "t2 = t1" by (simp_all add: bind_p_def)
    with Inl n1 stop show ?thesis by simp
  next
    case (Inr a)
    with run ms have fs: "f a (w1, t1) = (x, w2, t2)" by (simp add: bind_p_def)
    from yieldsD [OF f fs] obtain n2 where n2: "t2 = t1 @ n2" "R a x n2" by blast
    from go [of a n1 x n2] Inr n1 n2 show ?thesis by simp
  qed
qed

subsection \<open>A raised exception ends the run\<close>

lemma quiet_append: "quiet (xs @ ys) \<longleftrightarrow> quiet xs \<and> quiet ys"
  by (simp add: quiet_def)

lemma clean_seq: "clean (Inr r) n1 \<Longrightarrow> clean x n2 \<Longrightarrow> clean x (n1 @ n2)"
  by (auto simp: clean_def quiet_append)

lemma clean_stop: "clean (Inl e :: exn + 'r) n \<Longrightarrow> clean (Inl e :: exn + 'q) n"
  by (auto simp: clean_def)


lemma safe_unit: "safe (unit_p r)"
  by (simp add: safe_def yields_unit clean_def quiet_def)

lemma safe_lift: "safe (lift_p x)"
  by (simp add: safe_def yields_lift clean_def quiet_def)

lemma safe_emit: "safe (emit p)"
  by (simp add: safe_def yields_emit clean_def quiet_def)

lemma safe_call: "safe (call lib op)"
  unfolding safe_def
  by (rule yields_call) (auto simp: clean_def quiet_def)

lemma safe_bind: "safe m \<Longrightarrow> (\<And>r. safe (f r)) \<Longrightarrow> safe (bind_p m f)"
  unfolding safe_def
  by (rule yields_bind [where P = clean and R = "\<lambda>_. clean"]) (auto intro: clean_seq clean_stop)

lemma safe_for_each: "(\<And>i v. safe (body i v)) \<Longrightarrow> safe (for_each is body v)"
  by (induction "is" arbitrary: v) (auto intro: safe_unit safe_bind)

lemma safe_if: "safe a \<Longrightarrow> safe b \<Longrightarrow> safe (if c then a else b)"
  by simp

lemmas safe_intros = safe_bind safe_call safe_emit safe_lift safe_unit safe_for_each safe_if


lemma safe_train_diamonds: "safe (train_diamonds lib nr bs gpu)"
  unfolding train_diamonds_def by (intro safe_intros)

lemma safe_mlflow_iteration: "safe (mlflow_iteration lib ml_run i u)"
  unfolding mlflow_iteration_def by (intro safe_intros)

lemma safe_train_diamonds_mlflow: "safe (train_diamonds_mlflow lib ex nr bs gpu)"
  unfolding train_diamonds_mlflow_def by (intro safe_intros safe_mlflow_iteration)

lemma safe_training_iteration: "safe (training_iteration lib n v)"
  unfolding training_iteration_def by (intro safe_intros)

lemma safe_rl_training_run: "safe (rl_training_run lib algo n d)"
  unfolding rl_training_run_def training_loop_def by (intro safe_intros safe_training_iteration)


subsection \<open>The sequence of library calls\<close>

lemma follows_unit: "yields (unit_p r) (follows \<mu> [])"
  by (rule yields_unit) (simp add: follows_def)

lemma follows_lift: "yields (lift_p x) (follows \<mu> [])"
  by (rule yields_lift) (simp add: follows_def split: sum.splits)

lemma follows_emit: "yields (emit p) (follows \<mu> [])"
  by (rule yields_emit) (simp add: follows_def)

lemma follows_call: "yields (call lib op) (follows \<mu> [\<mu> op])"
  by (rule yields_call) (simp_all add: follows_def)

lemma follows_bind:
  assumes "yields m (follows \<mu> a)" and "\<And>r. yields (f r) (follows \<mu> b)"
  shows "yields (bind_p m f) (follows \<mu> (a @ b))"
  by (rule yields_bind [OF assms])
    (auto simp: follows_def prefix_def lib_calls_append split: sum.splits)

lemma follows_for_each:
  assumes "\<And>i v. yields (body i v) (follows \<mu> (c i))"
  shows "yields (for_each is body v) (follows \<mu> (concat (map c is)))"
proof (induction "is" arbitrary: v)
  case Nil
  show ?case by (simp add: follows_unit)
next
  case (Cons i "is")
  show ?case using follows_bind [OF assms [of i v] Cons] by simp
qed

lemmas follows_intros = follows_bind follows_call follows_lift follows_emit follows_unit

subsection \<open>Taking a run apart\<close>

lemma bind_p_cases:
  assumes "bind_p m f s = (x, s'')"
  obtains (stop) e where "m s = (Inl e, s'')" "x = Inl e"
        | (go) r s' where "m s = (Inr r, s')" "f r s' = (x, s'')"
proof -
  obtain r s' where run: "m s = (r, s')" by (cases "m s")
  show thesis
  proof (cases r)
    case (Inl e)
    with run assms have "m s = (Inl e, s'')" "x = Inl e" by (auto simp: bind_p_def)
    then show thesis by (rule stop)
  next
    case (Inr a)
    with run assms have "m s = (Inr a, s')" "f a s' = (x, s'')" by (auto simp: bind_p_def)
    then show thesis by (rule go)
  qed
qed

lemma call_cases:
  assumes "call lib op s = (x, s')"
  obtains (stop) e where "lib op (fst s) = Inl e" "x = Inl e"
                         "s' = (fst s, snd s @ [Lib op (Some e)])"
        | (go) r w' where "lib op (fst s) = Inr (r, w')" "x = Inr r"
                          "s' = (w', snd s @ [Lib op None])"
proof (cases "lib op (fst s)")
  case (Inl e)
  with assms have "x = Inl e" "s' = (fst s, snd s @ [Lib op (Some e)])"
    by (auto simp: call_def split_beta)
  with Inl show thesis by (rule stop)
next
  case (Inr p)
  obtain r w' where p: "p = (r, w')" by (cases p)
  with Inr assms have "x = Inr r" "s' = (w', snd s @ [Lib op None])"
    by (auto simp: call_def split_beta)
  with Inr p show thesis by (auto intro: go)
qed

lemma emit_cases:
  assumes "emit p s = (x, s')"
  obtains "x = Inr ()" "s' = (fst s, snd s @ [Print p])"
  using assms by (simp add: emit_def split_beta)

lemma if_emit_cases:
  assumes "(if c then emit a else emit b) s = (x, s')"
  obtains "x = Inr ()" "s' = (fst s, snd s @ [Print (if c then a else b)])"
  using assms by (simp add: emit_def split_beta split: if_splits)

lemma lift_p_cases:
  assumes "lift_p y s = (x, s')"
  obtains "y = x" "s' = s"
  using assms by (simp add: lift_p_def)

lemma unit_p_cases:
  assumes "unit_p r s = (x, s')"
  obtains "x = Inr r" "s' = s"
  using assms by (simp add: unit_p_def)

lemma bind_p_done:
  assumes "bind_p m f s = (Inr y, s'')"
  obtains r s' where "m s = (Inr r, s')" "f r s' = (Inr y, s'')"
  using assms by (elim bind_p_cases) simp_all

lemma call_done:
  assumes "call lib op s = (Inr r, s')"
  obtains w' where "lib op (fst s) = Inr (r, w')" "s' = (w', snd s @ [Lib op None])"
  using assms by (elim call_cases) simp_all

lemmas run_cases = bind_p_cases call_cases emit_cases lift_p_cases unit_p_cases if_emit_cases





subsection \<open>The training drivers\<close>




lemma training_iteration_calls:
  "yields (training_iteration lib n v) (follows id [Trainer_train, Trainer_save checkpoint_dir])"
proof -
  have "yields (training_iteration lib n v)
          (follows id ([id Trainer_train] @ [] @ [] @ [] @ [id (Trainer_save checkpoint_dir)] @ [] @ []))"
    unfolding training_iteration_def by (intro follows_intros)
  then show ?thesis by simp
qed

lemma training_loop_calls:
  "yields (training_loop lib n)
     (follows id (concat (replicate n [Trainer_train, Trainer_save checkpoint_dir])))"
proof -
  have "yields (training_loop lib n)
          (follows id (concat (map (\<lambda>_. [Trainer_train, Trainer_save checkpoint_dir]) [0..<n]) @ []))"
    unfolding training_loop_def
    by (intro follows_bind follows_for_each training_iteration_calls follows_emit)
  then show ?thesis by (simp add: map_replicate_const)
qed

lemma rl_training_run_completes:
  assumes "rl_training_run lib algo n_iter d (w, []) = (Inr u, w', tr)"
  shows "\<exists>cfg. rl_config d = Inr cfg \<and>
           lib_calls tr = RLTrainer_init algo cfg SELECT_ENV #
                            concat (replicate n_iter [Trainer_train, Trainer_save checkpoint_dir])"
proof -
  from assms obtain cfg r s1 where cfg: "rl_config d = Inr cfg"
    and init: "call lib (RLTrainer_init algo cfg SELECT_ENV) (w, []) = (Inr r, s1)"
    and loop: "training_loop lib n_iter s1 = (Inr u, w', tr)"
    unfolding rl_training_run_def
    by (elim bind_p_done lift_p_cases) auto
  from init have s1: "snd s1 = [Lib (RLTrainer_init algo cfg SELECT_ENV) None]"
    by (elim call_done) auto
  from yieldsD [OF training_loop_calls, of lib n_iter "fst s1" "snd s1"] loop
  obtain new where "tr = snd s1 @ new"
    "follows id (concat (replicate n_iter [Trainer_train, Trainer_save checkpoint_dir])) (Inr u :: exn + unit) new"
    by auto
  with s1 cfg show ?thesis by (simp add: follows_def lib_calls_append)
qed








lemma count_train_training:
  "length (filter (\<lambda>op. op = Trainer_train) (concat (replicate n [Trainer_train, Trainer_save d]))) = n"
  by (induction n) simp_all

lemma rl_config_entries:
  assumes "rl_config d = Inr cfg"
  shows "getitem cfg ''log_level'' = Inr (PStr ''WARN'') \<and>
         getitem cfg ''num_workers'' = Inr (PInt 2) \<and>
         getitem cfg ''num_cpus_per_worker'' = Inr (PInt 0) \<and>
         getitem2 (Inr cfg) ''model'' ''fcnet_hiddens'' = Inr (PList [PInt 40, PInt 20])"
proof (cases d)
  case (PDict kvs)
  show ?thesis
  proof (cases "map_of kvs ''model''")
    case None
    with PDict assms show ?thesis
      by (simp add: rl_config_def bind_e_def update_conv')
  next
    case (Some model)
    with PDict assms show ?thesis
      by (cases model) (auto simp: rl_config_def bind_e_def update_conv' getitem2_def)
  qed
qed (use assms in \<open>simp_all add: rl_config_def bind_e_def\<close>)




section \<open>Properties of the training runs\<close>




text \<open>
  C6 (as amended).  A reinforcement-learning training run is the handful of
  configuration assignments, the creation of the trainer, and a loop of the
  notebook's own: a completed run makes \<^verbatim>\<open>N_ITER\<close> calls of
  \<^verbatim>\<open>trainer.train()\<close>, each followed by \<^verbatim>\<open>trainer.save(checkpoint_dir)\<close>, and no
  other library call after the trainer is created.
\<close>

theorem rl_training_run_iterates:
  assumes "rl_training_run lib algo n_iter default_config (w, []) = (Inr u, w', tr)"
  shows "\<exists>config.
           rl_config default_config = Inr config \<and>
           getitem config ''log_level'' = Inr (PStr ''WARN'') \<and>
           getitem config ''num_workers'' = Inr (PInt 2) \<and>
           getitem config ''num_cpus_per_worker'' = Inr (PInt 0) \<and>
           getitem2 (Inr config) ''model'' ''fcnet_hiddens'' = Inr (PList [PInt 40, PInt 20]) \<and>
           lib_calls tr =
             RLTrainer_init algo config SELECT_ENV #
             concat (replicate n_iter [Trainer_train, Trainer_save checkpoint_dir]) \<and>
           length (filter (\<lambda>op. op = Trainer_train) (lib_calls tr)) = n_iter"
proof -
  from rl_training_run_completes [OF assms] obtain config
    where config: "rl_config default_config = Inr config"
      and calls: "lib_calls tr =
             RLTrainer_init algo config SELECT_ENV #
             concat (replicate n_iter [Trainer_train, Trainer_save checkpoint_dir])"
    by blast
  from calls have "length (filter (\<lambda>op. op = Trainer_train) (lib_calls tr)) = n_iter"
    by (simp add: count_train_training)
  with config calls rl_config_entries [OF config] show ?thesis by blast
qed

theorem rl_training_run_iterates_witness:
  "rl_training_run steady ''DQN'' 2 (PDict [(''model'', PDict [])]) (0, []) =
     (Inr (), 2,
      [Lib (RLTrainer_init ''DQN''
              (PDict [(''model'', PDict [(''fcnet_hiddens'', PList [PInt 40, PInt 20])]),
                      (''log_level'', PStr ''WARN''), (''num_workers'', PInt 2),
                      (''num_cpus_per_worker'', PInt 0)])
              ''CartPole-v1'') None,
       Lib Trainer_train None, Lib (Trainer_save ''checkpoints'') None, Print (P_row 0 0 1 2),
       Lib Trainer_train None, Lib (Trainer_save ''checkpoints'') None, Print (P_row 1 1 2 3),
       Print (P_last_checkpoint (R_str ''checkpoints/checkpoint''))]) \<and>
   length (filter (\<lambda>op. op = Trainer_train)
     (lib_calls (snd (snd (rl_training_run steady ''DQN'' 2 (PDict [(''model'', PDict [])])
        (0, [])))))) = 2"
proof -
  have a: "rl_training_run steady ''DQN'' 2 (PDict [(''model'', PDict [])]) (0, []) =
     (Inr (), 2,
      [Lib (RLTrainer_init ''DQN''
              (PDict [(''model'', PDict [(''fcnet_hiddens'', PList [PInt 40, PInt 20])]),
                      (''log_level'', PStr ''WARN''), (''num_workers'', PInt 2),
                      (''num_cpus_per_worker'', PInt 0)])
              ''CartPole-v1'') None,
       Lib Trainer_train None, Lib (Trainer_save ''checkpoints'') None, Print (P_row 0 0 1 2),
       Lib Trainer_train None, Lib (Trainer_save ''checkpoints'') None, Print (P_row 1 1 2 3),
       Print (P_last_checkpoint (R_str ''checkpoints/checkpoint''))])"
    by code_simp
  from rl_training_run_iterates [OF a]
  have c: "length (filter (\<lambda>op. op = Trainer_train)
     (lib_calls (snd (snd (rl_training_run steady ''DQN'' 2 (PDict [(''model'', PDict [])])
        (0, [])))))) = 2"
    unfolding a by (elim exE conjE) simp
  from a c show ?thesis by blast
qed

theorem dqn_run_trains_fifty_times:
  "length (filter (\<lambda>op. op = Trainer_train)
     (lib_calls (snd (snd (rl_training_run steady ''DQN'' N_ITER_DQN
        (PDict [(''model'', PDict [])]) (0, [])))))) = 50"
  by code_simp




section \<open>What the repository's own code fixes\<close>









section \<open>Properties of the start script\<close>






lemma join_first: "ss \<noteq> [] \<Longrightarrow> join sep ((a @ s) # tl ss) = a @ join sep (s # tl ss)"
  by (cases "tl ss") simp_all





























section \<open>Properties of the tuning objective\<close>




subsection \<open>Binary64 rounding is an arithmetic of this kind\<close>





























end
